theory Spec2Isabelle
  imports Main "HOL-Library.Word"
begin

section \<open>The video viewer of Pangolin: playback control\<close>

text \<open>
  A shallow embedding of \<^verbatim>\<open>Pangolin/src/tools/video_viewer.cpp\<close>. The class
  \<^verbatim>\<open>VideoViewer\<close> becomes a record, each member function a function from the
  state before the call to the state after it. The member functions hold
  \<^verbatim>\<open>control_mutex\<close> for their whole body and the render loop holds it for the
  part of an iteration modelled here, so each is one atomic transition.
\<close>

subsection \<open>Machine integers\<close>

text \<open>
  The C++ type \<^verbatim>\<open>int\<close> is a 32-bit word read in two's complement: \<open>sint\<close> gives
  its value, comparisons of the source compare \<open>sint\<close> values, and \<open>+\<close> and \<open>-\<close>
  wrap around where the mathematical result is not representable.
\<close>

type_synonym int32 = "32 word"

text \<open>\<^verbatim>\<open>std::numeric_limits<int>::max()\<close>\<close>

definition INT_MAX :: int32 where
  "INT_MAX = 2147483647"

subsection \<open>The collaborators\<close>

record StreamInfo =
  Width :: nat
  Height :: nat
  PixFormat_format :: string
  Pitch :: nat

text \<open>
  What the viewer does to the outside world, in the order it does it: messages printed,
  calls into the video object and into the stream views.
\<close>

datatype 'img event =
    PrintInfo string
  | PrintWarn string
  | PrintError string
  | CoutStream nat StreamInfo
  | CoutVideoLength int32
  | SetFrameRange int32 int32
  | VideoOpen string string
  | VideoClose
  | VideoSeek int32
  | VideoGrab bool bool
  | VideoSetTimelapse "64 word"
  | VideoRecord
  | VideoRecordOneFrame
  | VideoStop
  | ViewSetImage nat 'img

datatype error = VideoException string

text \<open>
  The video object (\<^verbatim>\<open>pangolin::VideoInput\<close>) and the playback interface found
  inside it are not part of this file: their member functions are parameters. \<open>'v\<close> is
  the state of the video object, \<open>'p\<close> a pointer to a playback interface and \<open>'img\<close>
  an image. A member function that changes the video object returns its new state.
\<close>

record ('v, 'p, 'img) video_api =
  video_Open :: "string \<Rightarrow> string \<Rightarrow> 'v \<Rightarrow> error + 'v"
  video_Close :: "'v \<Rightarrow> 'v"
  video_Streams :: "'v \<Rightarrow> StreamInfo list"
  video_Grab :: "'img list \<Rightarrow> bool \<Rightarrow> bool \<Rightarrow> 'v \<Rightarrow> bool \<times> 'img list \<times> 'v"
  video_IsRecording :: "'v \<Rightarrow> bool"
  video_SetTimelapse :: "64 word \<Rightarrow> 'v \<Rightarrow> 'v"
  video_Record :: "'v \<Rightarrow> 'v"
  video_RecordOneFrame :: "'v \<Rightarrow> 'v"
  video_Stop :: "'v \<Rightarrow> 'v"
  FindFirstMatchingVideoInterface :: "'v \<Rightarrow> 'p option"
  playback_GetTotalFrames :: "'p \<Rightarrow> 'v \<Rightarrow> int32"
  playback_Seek :: "'p \<Rightarrow> int32 \<Rightarrow> 'v \<Rightarrow> int32 \<times> 'v"

subsection \<open>The state of the viewer\<close>

text \<open>
  The data members of \<^verbatim>\<open>VideoViewer\<close>, the vector \<^verbatim>\<open>images\<close> of
  \<^verbatim>\<open>Run\<close>, and the events so far. \<^verbatim>\<open>video_playback\<close> is \<open>None\<close> for
  \<^verbatim>\<open>nullptr\<close>. The variable \<^verbatim>\<open>ui.frame\<close> is attached to
  \<^verbatim>\<open>current_frame\<close>, so \<^verbatim>\<open>frame\<close> in \<^verbatim>\<open>Run\<close> reads and writes
  \<open>current_frame\<close>.
\<close>

record ('v, 'p, 'img) VideoViewer =
  window_name :: string
  video :: 'v
  video_playback :: "'p option"
  output_uri :: string
  current_frame :: int32
  grab_until :: int32
  record_nth_frame :: int32
  video_grab_wait :: bool
  video_grab_newest :: bool
  should_run :: bool
  images :: "'img list"
  trace :: "'img event list"

definition emit :: "'img event list \<Rightarrow> ('v, 'p, 'img) VideoViewer \<Rightarrow> ('v, 'p, 'img) VideoViewer" where
  "emit es s = s\<lparr>trace := trace s @ es\<rparr>"

text \<open>
  Modelled from the spec: \<^verbatim>\<open>TotalFrames()\<close> is defined in the header
  \<^verbatim>\<open>pangolin/tools/video_viewer.h\<close>, which is not among the sources. The spec
  gives the frame count of a source as an integer or unbounded, and the unbounded
  value is the largest \<^verbatim>\<open>int\<close>: the count is what the playback interface
  reports when there is one, and unbounded when there is none.
\<close>

definition TotalFrames :: "('v, 'p, 'img) video_api \<Rightarrow> ('v, 'p, 'img) VideoViewer \<Rightarrow> int32" where
  "TotalFrames V s =
     (case video_playback s of
        Some p \<Rightarrow> playback_GetTotalFrames V p (video s)
      | None \<Rightarrow> INT_MAX)"

subsection \<open>Opening and closing\<close>

definition OpenInput ::
  "('v, 'p, 'img) video_api \<Rightarrow> ('v, 'p, 'img) VideoViewer \<Rightarrow> string \<Rightarrow> error + ('v, 'p, 'img) VideoViewer"
where
  "OpenInput V s input_uri =
     (case video_Open V input_uri (output_uri s) (video s) of
        Inl e \<Rightarrow> Inl e
      | Inr v \<Rightarrow>
          (let streams = video_Streams V v;
               s1 = emit (VideoOpen input_uri (output_uri s)
                          # map (\<lambda>i. CoutStream i (streams ! i)) [0 ..< length streams])
                      (s\<lparr>video := v\<rparr>)
           in if length streams = 0
              then Inr (emit [PrintError (''No video streams from device.'' @ [CHR 0x0A])] s1)
              else
                (let s2 = s1\<lparr>video_playback := FindFirstMatchingVideoInterface V v\<rparr>;
                     s3 = (if sint (TotalFrames V s2) < sint INT_MAX
                           then (emit [CoutVideoLength (TotalFrames V s2)] s2)\<lparr>grab_until := 0\<rparr>
                           else s2)
                 in Inr (emit [SetFrameRange 0 (TotalFrames V s3 - 1)] s3))))"

text \<open>
  The constructor, up to the start of the thread that runs \<^verbatim>\<open>Run\<close>. \<open>v0\<close> is
  the video object as its default constructor leaves it.
\<close>

definition VideoViewer_new ::
  "('v, 'p, 'img) video_api \<Rightarrow> 'v \<Rightarrow> string \<Rightarrow> string \<Rightarrow> string \<Rightarrow> error + ('v, 'p, 'img) VideoViewer"
where
  "VideoViewer_new V v0 wname input_uri out_uri =
     (let s = \<lparr> window_name = wname, video = v0, video_playback = None,
                output_uri = out_uri, current_frame = - 1, grab_until = INT_MAX,
                record_nth_frame = 1, video_grab_wait = True, video_grab_newest = False,
                should_run = True, images = [], trace = [] \<rparr>
      in if input_uri \<noteq> [] then OpenInput V s input_uri else Inr s)"

definition Quit :: "('v, 'p, 'img) VideoViewer \<Rightarrow> ('v, 'p, 'img) VideoViewer" where
  "Quit s = s\<lparr>should_run := False\<rparr>"

definition CloseInput :: "('v, 'p, 'img) video_api \<Rightarrow> ('v, 'p, 'img) VideoViewer \<Rightarrow> ('v, 'p, 'img) VideoViewer" where
  "CloseInput V s = emit [VideoClose] (s\<lparr>video := video_Close V (video s)\<rparr>)"

subsection \<open>One iteration of the render loop\<close>

text \<open>
  The block of \<^verbatim>\<open>Run\<close> that holds the lock. \<open>gui_changed\<close> is what
  \<^verbatim>\<open>frame.GuiChanged()\<close> returns in this iteration. First the reaction to a moved
  slider, then the grab.
\<close>

definition Run_gui_step ::
  "('v, 'p, 'img) video_api \<Rightarrow> ('v, 'p, 'img) VideoViewer \<Rightarrow> bool \<Rightarrow> ('v, 'p, 'img) VideoViewer"
where
  "Run_gui_step V s gui_changed =
     (if gui_changed
      then
        (let s1 = (case video_playback s of
                     Some p \<Rightarrow>
                       (let (r, v) = playback_Seek V p (current_frame s) (video s)
                        in emit [VideoSeek (current_frame s)]
                             (s\<lparr>video := v, current_frame := r - 1\<rparr>))
                   | None \<Rightarrow> s)
         in s1\<lparr>grab_until := current_frame s1 + 1\<rparr>)
      else s)"

definition Run_grab_step ::
  "('v, 'p, 'img) video_api \<Rightarrow> ('v, 'p, 'img) VideoViewer \<Rightarrow> ('v, 'p, 'img) VideoViewer"
where
  "Run_grab_step V s =
     (if sint (current_frame s) < sint (grab_until s)
      then
        (let (ok, imgs, v) = video_Grab V (images s) (video_grab_wait s) (video_grab_newest s) (video s);
             s1 = emit [VideoGrab (video_grab_wait s) (video_grab_newest s)]
                    (s\<lparr>video := v, images := imgs\<rparr>)
         in if ok
            then emit (map (\<lambda>i. ViewSetImage i (imgs ! i)) [0 ..< length imgs])
                   (s1\<lparr>current_frame := current_frame s1 + 1\<rparr>)
            else s1)
      else s)"

definition Run_tick ::
  "('v, 'p, 'img) video_api \<Rightarrow> ('v, 'p, 'img) VideoViewer \<Rightarrow> bool \<Rightarrow> ('v, 'p, 'img) VideoViewer"
where
  "Run_tick V s gui_changed = Run_grab_step V (Run_gui_step V s gui_changed)"

subsection \<open>Recording\<close>

definition Record :: "('v, 'p, 'img) video_api \<Rightarrow> ('v, 'p, 'img) VideoViewer \<Rightarrow> ('v, 'p, 'img) VideoViewer" where
  "Record V s = emit [VideoRecord] (s\<lparr>video := video_Record V (video s)\<rparr>)"

definition RecordOneFrame :: "('v, 'p, 'img) video_api \<Rightarrow> ('v, 'p, 'img) VideoViewer \<Rightarrow> ('v, 'p, 'img) VideoViewer" where
  "RecordOneFrame V s = emit [VideoRecordOneFrame] (s\<lparr>video := video_RecordOneFrame V (video s)\<rparr>)"

definition StopRecording :: "('v, 'p, 'img) video_api \<Rightarrow> ('v, 'p, 'img) VideoViewer \<Rightarrow> ('v, 'p, 'img) VideoViewer" where
  "StopRecording V s =
     (if video_IsRecording V (video s)
      then emit [VideoStop] (s\<lparr>video := video_Stop V (video s)\<rparr>)
      else s)"

text \<open>
  \<^verbatim>\<open>static_cast<size_t>(record_nth_frame)\<close> extends the sign to 64 bits.
\<close>

definition ToggleRecord :: "('v, 'p, 'img) video_api \<Rightarrow> ('v, 'p, 'img) VideoViewer \<Rightarrow> ('v, 'p, 'img) VideoViewer" where
  "ToggleRecord V s =
     (if \<not> video_IsRecording V (video s)
      then emit [VideoSetTimelapse (scast (record_nth_frame s)), VideoRecord,
                 PrintInfo (''Started Recording.'' @ [CHR 0x0A])]
             (s\<lparr>video := video_Record V (video_SetTimelapse V (scast (record_nth_frame s)) (video s))\<rparr>)
      else emit [VideoStop, PrintInfo (''Finished recording.'' @ [CHR 0x0A])]
             (s\<lparr>video := video_Stop V (video s)\<rparr>))"

subsection \<open>Play, pause and the grab flags\<close>

definition TogglePlay :: "('v, 'p, 'img) VideoViewer \<Rightarrow> ('v, 'p, 'img) VideoViewer" where
  "TogglePlay s =
     s\<lparr>grab_until := (if sint (current_frame s) < sint (grab_until s)
                       then current_frame s else INT_MAX)\<rparr>"

definition ToggleDiscardBufferedFrames :: "('v, 'p, 'img) VideoViewer \<Rightarrow> ('v, 'p, 'img) VideoViewer" where
  "ToggleDiscardBufferedFrames s =
     (let s1 = s\<lparr>video_grab_newest := \<not> video_grab_newest s\<rparr>
      in if video_grab_newest s1
         then emit [PrintInfo (''Discarding old frames.'' @ [CHR 0x0A])] s1
         else emit [PrintInfo (''Not discarding old frames.'' @ [CHR 0x0A])] s1)"

definition ToggleWaitForFrames :: "('v, 'p, 'img) VideoViewer \<Rightarrow> ('v, 'p, 'img) VideoViewer" where
  "ToggleWaitForFrames s =
     (let s1 = s\<lparr>video_grab_wait := \<not> video_grab_wait s\<rparr>
      in if video_grab_wait s1
         then emit [PrintInfo (''Gui wait's for video frame.'' @ [CHR 0x0A])] s1
         else emit [PrintInfo (''Gui doesn't wait for video frame.'' @ [CHR 0x0A])] s1)"

subsection \<open>Skipping\<close>

definition Skip ::
  "('v, 'p, 'img) video_api \<Rightarrow> ('v, 'p, 'img) VideoViewer \<Rightarrow> int32 \<Rightarrow> ('v, 'p, 'img) VideoViewer"
where
  "Skip V s frames =
     (case video_playback s of
        Some p \<Rightarrow>
          (let (r, v) = playback_Seek V p (current_frame s + frames) (video s);
               s1 = emit [VideoSeek (current_frame s + frames)]
                      (s\<lparr>video := v, current_frame := r - 1\<rparr>)
           in s1\<lparr>grab_until := current_frame s1 + 1\<rparr>)
      | None \<Rightarrow>
          (if 0 \<le> sint frames
           then s\<lparr>grab_until := current_frame s + frames\<rparr>
           else emit [PrintWarn ''Unable to skip backward.''] s))"

subsection \<open>The vocabulary of the specification\<close>

text \<open>
  The specification clamps a frame index to the frames of the source. This is its
  \<open>clamp(x, lo, hi)\<close>, on mathematical integers.
\<close>

definition clamp :: "int \<Rightarrow> int \<Rightarrow> int \<Rightarrow> int" where
  "clamp x lo hi = max lo (min hi x)"

text \<open>
  The bounds on the frame counters that every operation keeps: neither counter goes
  below \<open>-1\<close>, the value of \<^verbatim>\<open>current_frame\<close> before the first grab.
\<close>

definition frame_bounds :: "('v, 'p, 'img) VideoViewer \<Rightarrow> bool" where
  "frame_bounds s \<longleftrightarrow> - 1 \<le> sint (current_frame s) \<and> - 1 \<le> sint (grab_until s)"

subsection \<open>A video source for the examples\<close>

text \<open>
  A small video object to run the viewer on: one stream, an optional frame count
  (\<open>Some n\<close> for a source with a playback interface that reports \<open>n\<close> frames,
  \<open>None\<close> for a live source without one), the index of the frame that the next grab
  delivers, and whether it records. An image is the index of its frame. Seeking clamps
  the index to the frames of the source and returns the index after it. The URI
  \<open>''file''\<close> opens a file of 100 frames, \<open>''pipe''\<close> a source with a playback
  interface that cannot tell its length, \<open>''live''\<close> a live source and
  \<open>''empty''\<close> a source without streams.
\<close>

record test_source =
  ts_streams :: "StreamInfo list"
  ts_total :: "int32 option"
  ts_next :: int32
  ts_recording :: bool

definition vga :: StreamInfo where
  "vga = \<lparr> Width = 640, Height = 480, PixFormat_format = ''RGB24'', Pitch = 1920 \<rparr>"

definition test_closed :: test_source where
  "test_closed = \<lparr> ts_streams = [], ts_total = None, ts_next = 0, ts_recording = False \<rparr>"

definition test_Open :: "string \<Rightarrow> string \<Rightarrow> test_source \<Rightarrow> error + test_source" where
  "test_Open uri out v =
     (if uri = ''file'' then Inr (test_closed\<lparr>ts_streams := [vga], ts_total := Some 100\<rparr>)
      else if uri = ''pipe'' then Inr (test_closed\<lparr>ts_streams := [vga], ts_total := Some INT_MAX\<rparr>)
      else if uri = ''live'' then Inr (test_closed\<lparr>ts_streams := [vga]\<rparr>)
      else if uri = ''empty'' then Inr test_closed
      else Inl (VideoException ''No known video handler''))"

definition test_Grab :: "int32 list \<Rightarrow> bool \<Rightarrow> bool \<Rightarrow> test_source \<Rightarrow> bool \<times> int32 list \<times> test_source" where
  "test_Grab imgs wait newest v =
     (if (case ts_total v of Some t \<Rightarrow> sint (ts_next v) < sint t | None \<Rightarrow> True)
      then (True, [ts_next v], v\<lparr>ts_next := ts_next v + 1\<rparr>)
      else (False, imgs, v))"

definition test_Seek :: "unit \<Rightarrow> int32 \<Rightarrow> test_source \<Rightarrow> int32 \<times> test_source" where
  "test_Seek p i v =
     (let t = (case ts_total v of Some t \<Rightarrow> t | None \<Rightarrow> INT_MAX);
          j = (if sint i < 0 then 0 else if sint t - 1 < sint i then t - 1 else i)
      in (j + 1, v\<lparr>ts_next := j\<rparr>))"

definition test_api :: "(test_source, unit, int32) video_api" where
  "test_api =
     \<lparr> video_Open = test_Open,
       video_Close = (\<lambda>v. test_closed),
       video_Streams = ts_streams,
       video_Grab = test_Grab,
       video_IsRecording = ts_recording,
       video_SetTimelapse = (\<lambda>n v. v),
       video_Record = (\<lambda>v. v\<lparr>ts_recording := True\<rparr>),
       video_RecordOneFrame = (\<lambda>v. v),
       video_Stop = (\<lambda>v. v\<lparr>ts_recording := False\<rparr>),
       FindFirstMatchingVideoInterface = (\<lambda>v. case ts_total v of Some t \<Rightarrow> Some () | None \<Rightarrow> None),
       playback_GetTotalFrames = (\<lambda>p v. case ts_total v of Some t \<Rightarrow> t | None \<Rightarrow> INT_MAX),
       playback_Seek = test_Seek \<rparr>"

text \<open>
  The viewer as the constructor leaves it for an input URI; \<open>viewer_of []\<close> has
  opened nothing.
\<close>

definition viewer_of :: "string \<Rightarrow> (test_source, unit, int32) VideoViewer" where
  "viewer_of uri = projr (VideoViewer_new test_api test_closed ''VideoViewer'' uri ''video.pango'')"

text \<open>
  A live source after four grabs and \<^verbatim>\<open>Skip(7)\<close>: at frame 3, grabbing until 10.
\<close>

definition live_at_3_until_10 :: "(test_source, unit, int32) VideoViewer" where
  "live_at_3_until_10 =
     Skip test_api
       (Run_tick test_api (Run_tick test_api (Run_tick test_api (Run_tick test_api
          (viewer_of ''live'') False) False) False) False) 7"

text \<open>
  The file just opened, after the slider wrote 50 into the attached variable.
\<close>

definition file_slider_at_50 :: "(test_source, unit, int32) VideoViewer" where
  "file_slider_at_50 = (viewer_of ''file'')\<lparr>current_frame := 50\<rparr>"

text \<open>
  The file played to its end: the last frame was sought and grabbed, then
  \<^verbatim>\<open>TogglePlay\<close> asked for more.
\<close>

definition file_at_end :: "(test_source, unit, int32) VideoViewer" where
  "file_at_end = TogglePlay (Run_tick test_api (Skip test_api (viewer_of ''file'') 200) False)"

section \<open>Properties\<close>

subsection \<open>Signed 32-bit arithmetic\<close>

lemma sint_int32_bounds: "- 2147483648 \<le> sint (x :: int32) \<and> sint x \<le> 2147483647"
  using sint_ge [of x] sint_lt [of x] by simp

lemma sint_add_ok: 
  assumes "- 2147483648 \<le> sint (a::int32) + sint (b::int32)" and "sint a + sint b \<le> 2147483647"
  shows "sint (a + b) = sint a + sint b"
proof -
  have "signed_take_bit 31 (sint a + sint b) = sint a + sint b"
    using assms by (simp add: signed_take_bit_int_eq_self_iff)
  then show ?thesis by (simp add: sint_word_add)
qed

lemma sint_diff_ok: 
  assumes "- 2147483648 \<le> sint (a::int32) - sint (b::int32)" and "sint a - sint b \<le> 2147483647"
  shows "sint (a - b) = sint a - sint b"
proof -
  have "signed_take_bit 31 (sint a - sint b) = sint a - sint b"
    using assms by (simp add: signed_take_bit_int_eq_self_iff)
  then show ?thesis by (simp add: sint_word_diff)
qed

lemma sint_pred: "- 2147483648 < sint (r::int32) \<Longrightarrow> sint (r - 1) = sint r - 1"
  using sint_diff_ok [of r 1] sint_int32_bounds [of r] by simp

lemma sint_succ: "sint (a::int32) < sint (b::int32) \<Longrightarrow> sint (a + 1) = sint a + 1"
  using sint_add_ok [of a 1] sint_int32_bounds [of a] sint_int32_bounds [of b] by simp

lemma sint_eq_iff: "sint (a :: int32) = sint b \<longleftrightarrow> a = b"
  by (simp add: word_eq_iff_signed [symmetric])

lemma sint_less_INT_MAX: "sint x < sint INT_MAX \<longleftrightarrow> x \<noteq> INT_MAX"
proof -
  have "sint x \<le> sint INT_MAX"
    using sint_int32_bounds [of x] by (simp add: INT_MAX_def)
  then show ?thesis using sint_eq_iff [of x INT_MAX] by auto
qed

lemma sint_minus_one_iff: "sint (a :: int32) = - 1 \<longleftrightarrow> a = - 1"
  using sint_eq_iff [of a "- 1"] by simp

lemma sint_zero_iff: "sint (a :: int32) = 0 \<longleftrightarrow> a = 0"
  using sint_eq_iff [of a 0] by simp

subsection \<open>The example states\<close>

lemmas test_defs = viewer_of_def VideoViewer_new_def OpenInput_def TotalFrames_def emit_def
  test_api_def test_Open_def test_closed_def test_Grab_def test_Seek_def INT_MAX_def

lemma viewer_of_none:
  "viewer_of [] =
     \<lparr> window_name = ''VideoViewer'', video = test_closed,
       video_playback = None, output_uri = ''video.pango'',
       current_frame = - 1, grab_until = INT_MAX, record_nth_frame = 1,
       video_grab_wait = True, video_grab_newest = False, should_run = True, images = [],
       trace = [] \<rparr>"
  by (simp add: viewer_of_def VideoViewer_new_def)

lemma viewer_of_file:
  "viewer_of ''file'' =
     \<lparr> window_name = ''VideoViewer'',
       video = \<lparr> ts_streams = [vga], ts_total = Some 100, ts_next = 0, ts_recording = False \<rparr>,
       video_playback = Some (), output_uri = ''video.pango'',
       current_frame = - 1, grab_until = 0, record_nth_frame = 1,
       video_grab_wait = True, video_grab_newest = False, should_run = True, images = [],
       trace = [VideoOpen ''file'' ''video.pango'', CoutStream 0 vga, CoutVideoLength 100,
                SetFrameRange 0 99] \<rparr>"
  by (simp add: test_defs)

lemma viewer_of_live:
  "viewer_of ''live'' =
     \<lparr> window_name = ''VideoViewer'',
       video = \<lparr> ts_streams = [vga], ts_total = None, ts_next = 0, ts_recording = False \<rparr>,
       video_playback = None, output_uri = ''video.pango'',
       current_frame = - 1, grab_until = INT_MAX, record_nth_frame = 1,
       video_grab_wait = True, video_grab_newest = False, should_run = True, images = [],
       trace = [VideoOpen ''live'' ''video.pango'', CoutStream 0 vga,
                SetFrameRange 0 2147483646] \<rparr>"
  by (simp add: test_defs)

lemma VideoViewer_new_file:
  "VideoViewer_new test_api test_closed ''VideoViewer'' ''file'' ''video.pango'' = Inr (viewer_of ''file'')"
  by (simp add: test_defs)

lemma live_at_3_until_10_fields:
  "video_playback live_at_3_until_10 = None"
  "current_frame live_at_3_until_10 = 3"
  "grab_until live_at_3_until_10 = 10"
  by (simp_all add: live_at_3_until_10_def viewer_of_live Run_tick_def Run_gui_step_def
        Run_grab_step_def Skip_def emit_def test_api_def test_Grab_def INT_MAX_def)

lemma file_at_end_fields:
  "current_frame file_at_end = 100"
  "grab_until file_at_end = INT_MAX"
  "video_grab_wait file_at_end = True"
  "video_grab_newest file_at_end = False"
  "video_Grab test_api (images file_at_end) True False (video file_at_end)
     = (False, [99], video file_at_end)"
  by (simp_all add: file_at_end_def viewer_of_file TogglePlay_def Run_tick_def Run_gui_step_def
        Run_grab_step_def Skip_def emit_def test_api_def test_Grab_def test_Seek_def INT_MAX_def)

lemma file_at_end_source:
  "video_playback file_at_end = Some ()"
  "playback_GetTotalFrames test_api () (video file_at_end) = 100"
  "fst (playback_Seek test_api () 2147483747 (video file_at_end)) = 1"
  by (simp_all add: file_at_end_def viewer_of_file TogglePlay_def Run_tick_def Run_gui_step_def
        Run_grab_step_def Skip_def emit_def test_api_def test_Grab_def test_Seek_def INT_MAX_def)

subsection \<open>Skipping on a source with a playback interface\<close>

lemma Skip_seekable_fields:
  assumes "video_playback s = Some p"
  shows "current_frame (Skip V s d) = fst (playback_Seek V p (current_frame s + d) (video s)) - 1"
    and "grab_until (Skip V s d) = fst (playback_Seek V p (current_frame s + d) (video s))"
    and "trace (Skip V s d) = trace s @ [VideoSeek (current_frame s + d)]"
  using assms by (simp_all add: Skip_def emit_def split: prod.split)

text \<open>
  Claim C1, amended. \<^verbatim>\<open>Skip(d)\<close> on a seekable source (\<^verbatim>\<open>video_playback\<close>
  bound), where \<^verbatim>\<open>Seek(i)\<close> returns \<open>clamp(i, 0, total_frames - 1) + 1\<close> for the
  index it is given: whenever \<^verbatim>\<open>current_frame + d\<close> is representable as an
  \<^verbatim>\<open>int\<close>, \<^verbatim>\<open>current_frame\<close> is \<open>clamp(current_frame + d, 0, total_frames - 1)\<close>
  afterwards. In every case it is the clamp of the sum as the code computes it, in 32
  bits, and exactly one grab is armed: \<^verbatim>\<open>grab_until = current_frame + 1\<close>.
\<close>

theorem Skip_seekable_clamps:
  assumes bound: "video_playback s = Some p"
    and seek: "sint (fst (playback_Seek V p (current_frame s + d) (video s)))
                 = clamp (sint (current_frame s + d)) 0 (sint (playback_GetTotalFrames V p (video s)) - 1) + 1"
  shows "(- 2147483648 \<le> sint (current_frame s) + sint d \<and> sint (current_frame s) + sint d \<le> 2147483647
            \<longrightarrow> sint (current_frame (Skip V s d))
                  = clamp (sint (current_frame s) + sint d) 0 (sint (playback_GetTotalFrames V p (video s)) - 1))
       \<and> sint (current_frame (Skip V s d))
           = clamp (sint (current_frame s + d)) 0 (sint (playback_GetTotalFrames V p (video s)) - 1)
       \<and> grab_until (Skip V s d) = current_frame (Skip V s d) + 1
       \<and> sint (grab_until (Skip V s d)) = sint (current_frame (Skip V s d)) + 1"
proof -
  let ?r = "fst (playback_Seek V p (current_frame s + d) (video s))"
  let ?c = "clamp (sint (current_frame s + d)) 0 (sint (playback_GetTotalFrames V p (video s)) - 1)"
  have pos: "0 \<le> ?c" by (simp add: clamp_def)
  have cf: "current_frame (Skip V s d) = ?r - 1" and gu: "grab_until (Skip V s d) = ?r"
    using bound by (rule Skip_seekable_fields)+
  have "- 2147483648 < sint ?r" using seek pos by simp
  then have "sint (?r - 1) = sint ?r - 1" by (rule sint_pred)
  then have a: "sint (current_frame (Skip V s d)) = ?c" using cf seek by simp
  have b: "grab_until (Skip V s d) = current_frame (Skip V s d) + 1" using cf gu by simp
  have c: "sint (grab_until (Skip V s d)) = sint (current_frame (Skip V s d)) + 1"
    using a gu seek by simp
  have d: "- 2147483648 \<le> sint (current_frame s) + sint d \<and> sint (current_frame s) + sint d \<le> 2147483647
            \<longrightarrow> sint (current_frame s + d) = sint (current_frame s) + sint d"
    using sint_add_ok [of "current_frame s" d] by simp
  show ?thesis using a b c d by simp
qed

text \<open>
  The file of 100 frames, just opened: the sum \<open>-1 + 10\<close> is representable, and
  \<^verbatim>\<open>Skip(10)\<close> seeks to frame 9 and arms one grab.
\<close>

theorem Skip_seekable_clamps_witness:
  "video_playback (viewer_of ''file'') = Some ()
   \<and> - 2147483648 \<le> sint (current_frame (viewer_of ''file'')) + sint (10 :: int32)
   \<and> sint (current_frame (viewer_of ''file'')) + sint (10 :: int32) \<le> 2147483647
   \<and> clamp (sint (current_frame (viewer_of ''file'')) + sint (10 :: int32)) 0
        (sint (playback_GetTotalFrames test_api () (video (viewer_of ''file''))) - 1) = 9
   \<and> sint (current_frame (Skip test_api (viewer_of ''file'') 10)) = 9
   \<and> sint (grab_until (Skip test_api (viewer_of ''file'') 10)) = 10"
proof -
  let ?s = "viewer_of ''file''"
  have bound: "video_playback ?s = Some ()"
    by (simp add: viewer_of_file)
  have seek: "sint (fst (playback_Seek test_api () (current_frame ?s + 10) (video ?s)))
                = clamp (sint (current_frame ?s + 10)) 0 (sint (playback_GetTotalFrames test_api () (video ?s)) - 1) + 1"
    by (simp add: viewer_of_file test_api_def test_Seek_def clamp_def)
  have fits: "- 2147483648 \<le> sint (current_frame ?s) + sint (10 :: int32)
              \<and> sint (current_frame ?s) + sint (10 :: int32) \<le> 2147483647"
    by (simp add: viewer_of_file)
  have val: "clamp (sint (current_frame ?s) + sint (10 :: int32)) 0
               (sint (playback_GetTotalFrames test_api () (video ?s)) - 1) = 9"
    by (simp add: viewer_of_file test_api_def clamp_def)
  note res = Skip_seekable_clamps [OF bound seek]
  have cf: "sint (current_frame (Skip test_api ?s 10)) = 9"
    using res [THEN conjunct1] fits val by simp
  have "sint (grab_until (Skip test_api ?s 10)) = 10"
    using res [THEN conjunct2, THEN conjunct2, THEN conjunct2] cf by simp
  with bound fits val cf show ?thesis by simp
qed

text \<open>
  The claim as stated, for every \<open>d\<close>, fails where the sum overflows: at frame 100
  of the file, \<^verbatim>\<open>Skip(2147483647)\<close> hands \<^verbatim>\<open>Seek\<close> a negative index, and
  \<^verbatim>\<open>current_frame\<close> becomes 0, where the clamp of the integer sum is 99.
\<close>

theorem Skip_seekable_overflow_counterexample:
  "video_playback file_at_end = Some ()
   \<and> sint (current_frame file_at_end) = 100
   \<and> sint (playback_GetTotalFrames test_api () (video file_at_end)) = 100
   \<and> sint (fst (playback_Seek test_api () (current_frame file_at_end + 2147483647) (video file_at_end)))
       = clamp (sint (current_frame file_at_end + 2147483647)) 0
           (sint (playback_GetTotalFrames test_api () (video file_at_end)) - 1) + 1
   \<and> sint (current_frame (Skip test_api file_at_end 2147483647)) = 0
   \<and> clamp (sint (current_frame file_at_end) + sint (2147483647 :: int32)) 0
        (sint (playback_GetTotalFrames test_api () (video file_at_end)) - 1) = 99
   \<and> sint (current_frame (Skip test_api file_at_end 2147483647))
       \<noteq> clamp (sint (current_frame file_at_end) + sint (2147483647 :: int32)) 0
            (sint (playback_GetTotalFrames test_api () (video file_at_end)) - 1)"
  by (simp add: Skip_seekable_fields [OF file_at_end_source(1)] file_at_end_source
        file_at_end_fields clamp_def)

subsection \<open>Skipping on a source without a playback interface\<close>

text \<open>
  Claim C2, amended. \<^verbatim>\<open>Skip(d)\<close> with \<open>d \<ge> 0\<close> on a source that is not seekable
  sets \<^verbatim>\<open>grab_until\<close> to \<^verbatim>\<open>current_frame + d\<close> as the code computes it, in 32
  bits, and leaves \<^verbatim>\<open>current_frame\<close> unchanged. Whenever \<^verbatim>\<open>current_frame + d\<close>
  does not exceed \<^verbatim>\<open>INT_MAX\<close> this is the integer sum, so that \<open>d\<close> more grabs
  pass from the current frame on. The new bound is the previous bound plus \<open>d\<close> exactly
  when the viewer was paused at the current frame.
\<close>

theorem Skip_forward_unseekable:
  assumes "video_playback s = None" and "0 \<le> sint d"
  shows "grab_until (Skip V s d) = current_frame s + d
       \<and> current_frame (Skip V s d) = current_frame s
       \<and> Skip V s d = s\<lparr>grab_until := current_frame s + d\<rparr>
       \<and> (grab_until (Skip V s d) = grab_until s + d \<longleftrightarrow> grab_until s = current_frame s)
       \<and> (sint (current_frame s) + sint d \<le> 2147483647
            \<longrightarrow> sint (grab_until (Skip V s d)) = sint (current_frame s) + sint d)"
proof -
  have gu: "grab_until (Skip V s d) = current_frame s + d"
    and rest: "current_frame (Skip V s d) = current_frame s" "Skip V s d = s\<lparr>grab_until := current_frame s + d\<rparr>"
    using assms by (simp_all add: Skip_def)
  have "sint (current_frame s) + sint d \<le> 2147483647
            \<longrightarrow> sint (current_frame s + d) = sint (current_frame s) + sint d"
    using sint_add_ok [of "current_frame s" d] sint_int32_bounds [of "current_frame s"] assms(2) by simp
  then show ?thesis using gu rest by auto
qed

theorem Skip_forward_unseekable_witness:
  "video_playback live_at_3_until_10 = None \<and> 0 \<le> sint (2 :: int32)
   \<and> sint (current_frame live_at_3_until_10) + sint (2 :: int32) \<le> 2147483647
   \<and> grab_until (Skip test_api live_at_3_until_10 2) = 5
   \<and> sint (grab_until (Skip test_api live_at_3_until_10 2)) = sint (current_frame live_at_3_until_10) + 2
   \<and> current_frame (Skip test_api live_at_3_until_10 2) = 3"
proof -
  have none: "video_playback live_at_3_until_10 = None" by (rule live_at_3_until_10_fields)
  have pos: "0 \<le> sint (2 :: int32)" by simp
  have fits: "sint (current_frame live_at_3_until_10) + sint (2 :: int32) \<le> 2147483647"
    by (simp add: live_at_3_until_10_fields)
  note res = Skip_forward_unseekable [OF none pos, of test_api]
  have gu: "grab_until (Skip test_api live_at_3_until_10 2) = 5"
    using res [THEN conjunct1] by (simp add: live_at_3_until_10_fields)
  have cf: "current_frame (Skip test_api live_at_3_until_10 2) = 3"
    using res [THEN conjunct2, THEN conjunct1] by (simp add: live_at_3_until_10_fields)
  have sum: "sint (grab_until (Skip test_api live_at_3_until_10 2)) = sint (current_frame live_at_3_until_10) + 2"
    using res [THEN conjunct2, THEN conjunct2, THEN conjunct2, THEN conjunct2] fits by simp
  show ?thesis using none pos fits gu cf sum by simp
qed

text \<open>
  The claim as stated, that the previous bound grows by \<open>d\<close>, fails on a live source
  at frame 3 that grabs until 10: \<^verbatim>\<open>Skip(2)\<close> gives the bound 5, not 12.
\<close>

theorem Skip_forward_extends_bound_counterexample:
  "video_playback live_at_3_until_10 = None \<and> 0 \<le> sint (2 :: int32)
   \<and> grab_until live_at_3_until_10 = 10
   \<and> grab_until (Skip test_api live_at_3_until_10 2) = 5
   \<and> grab_until (Skip test_api live_at_3_until_10 2) \<noteq> grab_until live_at_3_until_10 + 2"
  by (simp add: Skip_def live_at_3_until_10_fields)

text \<open>
  Claim C4. \<^verbatim>\<open>Skip(d)\<close> with \<open>d < 0\<close> on a source that is not seekable leaves
  \<^verbatim>\<open>grab_until\<close> and \<^verbatim>\<open>current_frame\<close> unchanged and prints the warning: the
  only change is the warning added to the events, so no negative bound is assigned.
\<close>

theorem Skip_backward_unseekable:
  assumes "video_playback s = None" and "sint d < 0"
  shows "grab_until (Skip V s d) = grab_until s
       \<and> current_frame (Skip V s d) = current_frame s
       \<and> trace (Skip V s d) = trace s @ [PrintWarn ''Unable to skip backward.'']
       \<and> Skip V s d = s\<lparr>trace := trace s @ [PrintWarn ''Unable to skip backward.'']\<rparr>"
  using assms by (simp add: Skip_def emit_def)

theorem Skip_backward_unseekable_witness:
  "video_playback (viewer_of ''live'') = None \<and> sint (- 1 :: int32) < 0
   \<and> grab_until (Skip test_api (viewer_of ''live'') (- 1)) = INT_MAX
   \<and> current_frame (Skip test_api (viewer_of ''live'') (- 1)) = - 1
   \<and> last (trace (Skip test_api (viewer_of ''live'') (- 1))) = PrintWarn ''Unable to skip backward.''"
proof -
  have none: "video_playback (viewer_of ''live'') = None" by (simp add: viewer_of_live)
  have neg: "sint (- 1 :: int32) < 0" by simp
  show ?thesis
    using Skip_backward_unseekable [OF none neg, of test_api] none neg
    by (simp add: viewer_of_live)
qed

subsection \<open>Play and pause\<close>

text \<open>
  Claim C3, amended. \<^verbatim>\<open>TogglePlay\<close> leaves \<^verbatim>\<open>current_frame\<close> alone, and two
  calls in a row restore \<^verbatim>\<open>grab_until\<close> exactly when it was the free-run value
  \<^verbatim>\<open>INT_MAX\<close> or equal to \<^verbatim>\<open>current_frame\<close>. In general the pair ends in
  free-run when \<^verbatim>\<open>current_frame < grab_until\<close> held before, and paused at
  \<^verbatim>\<open>current_frame\<close> otherwise.
\<close>

theorem TogglePlay_twice:
  "current_frame (TogglePlay s) = current_frame s
   \<and> grab_until (TogglePlay (TogglePlay s))
       = (if sint (current_frame s) < sint (grab_until s) \<or> current_frame s = INT_MAX
          then INT_MAX else current_frame s)
   \<and> (grab_until (TogglePlay (TogglePlay s)) = grab_until s
        \<longleftrightarrow> grab_until s = INT_MAX \<or> grab_until s = current_frame s)"
proof -
  have le: "sint (current_frame s) \<le> sint INT_MAX"
    using sint_int32_bounds [of "current_frame s"] by (simp add: INT_MAX_def)
  have eq: "sint (current_frame s) = sint INT_MAX \<longleftrightarrow> current_frame s = INT_MAX"
    by (simp add: word_eq_iff_signed [symmetric])
  show ?thesis using le eq
    by (auto simp: TogglePlay_def)
qed

theorem TogglePlay_twice_witness:
  "grab_until (TogglePlay (TogglePlay (viewer_of ''live''))) = grab_until (viewer_of ''live'')
   \<and> grab_until (viewer_of ''live'') = INT_MAX"
proof -
  have gu: "grab_until (viewer_of ''live'') = INT_MAX" by (simp add: viewer_of_live)
  from TogglePlay_twice [of "viewer_of ''live''", THEN conjunct2, THEN conjunct2] gu
  show ?thesis by simp
qed

text \<open>
  The claim as stated fails right after a file is opened: \<^verbatim>\<open>current_frame\<close> is
  \<open>-1\<close> and \<^verbatim>\<open>grab_until\<close> is 0; the first call pauses at \<open>-1\<close>, the second
  enters free-run.
\<close>

theorem TogglePlay_twice_counterexample:
  "current_frame (viewer_of ''file'') = - 1 \<and> grab_until (viewer_of ''file'') = 0
   \<and> grab_until (TogglePlay (viewer_of ''file'')) = - 1
   \<and> current_frame (TogglePlay (viewer_of ''file'')) = current_frame (viewer_of ''file'')
   \<and> grab_until (TogglePlay (TogglePlay (viewer_of ''file''))) = INT_MAX
   \<and> grab_until (TogglePlay (TogglePlay (viewer_of ''file''))) \<noteq> grab_until (viewer_of ''file'')"
  by (simp add: TogglePlay_def viewer_of_file INT_MAX_def)

subsection \<open>Opening a source\<close>

text \<open>
  Claim C5, amended. When the opened source has no streams, \<^verbatim>\<open>OpenInput\<close> prints
  the error and returns with \<^verbatim>\<open>video_playback\<close>, \<^verbatim>\<open>current_frame\<close> and
  \<^verbatim>\<open>grab_until\<close> as they were: a viewer that had no playback interface bound, as in
  the constructor, has none afterwards.
\<close>

theorem OpenInput_no_streams:
  assumes opened: "video_Open V uri (output_uri s) (video s) = Inr v"
    and empty: "video_Streams V v = []"
  shows "OpenInput V s uri
           = Inr (s\<lparr>video := v,
                    trace := trace s @ [VideoOpen uri (output_uri s),
                                        PrintError (''No video streams from device.'' @ [CHR 0x0A])]\<rparr>)
       \<and> video_playback (projr (OpenInput V s uri)) = video_playback s
       \<and> current_frame (projr (OpenInput V s uri)) = current_frame s
       \<and> grab_until (projr (OpenInput V s uri)) = grab_until s
       \<and> (video_playback s = None \<longrightarrow> video_playback (projr (OpenInput V s uri)) = None)"
  using assms by (simp add: OpenInput_def emit_def)

theorem OpenInput_no_streams_witness:
  "video_playback (viewer_of []) = None
   \<and> video_Streams test_api test_closed = []
   \<and> OpenInput test_api (viewer_of []) ''empty''
       = Inr ((viewer_of [])\<lparr>trace := [VideoOpen ''empty'' ''video.pango'',
                                        PrintError (''No video streams from device.'' @ [CHR 0x0A])]\<rparr>)
   \<and> video_playback (projr (OpenInput test_api (viewer_of []) ''empty'')) = None
   \<and> current_frame (projr (OpenInput test_api (viewer_of []) ''empty'')) = - 1"
proof -
  have opened: "video_Open test_api ''empty'' (output_uri (viewer_of [])) (video (viewer_of [])) = Inr test_closed"
    by (simp add: test_api_def test_Open_def)
  have empty: "video_Streams test_api test_closed = []"
    by (simp add: test_api_def test_closed_def)
  have idle: "video_playback (viewer_of []) = None" "current_frame (viewer_of []) = - 1"
    "trace (viewer_of []) = []" "output_uri (viewer_of []) = ''video.pango''"
    "(viewer_of [])\<lparr>video := test_closed\<rparr> = viewer_of []"
    by (simp_all add: viewer_of_none)
  show ?thesis
    using OpenInput_no_streams [OF opened empty] empty idle by simp
qed

text \<open>
  The claim as stated, that no source is bound afterwards, fails when a file is open
  and a source without streams is opened next: \<^verbatim>\<open>video_playback\<close> is still set.
\<close>

theorem OpenInput_no_streams_counterexample:
  "video_playback (viewer_of ''file'') = Some ()
   \<and> video_Open test_api ''empty'' (output_uri (viewer_of ''file'')) (video (viewer_of ''file'')) = Inr test_closed
   \<and> video_Streams test_api test_closed = []
   \<and> \<not> isl (OpenInput test_api (viewer_of ''file'') ''empty'')
   \<and> video_playback (projr (OpenInput test_api (viewer_of ''file'') ''empty'')) = Some ()
   \<and> video_playback (projr (OpenInput test_api (viewer_of ''file'') ''empty'')) \<noteq> None"
  by (simp add: viewer_of_file OpenInput_def emit_def test_api_def test_Open_def test_closed_def)

text \<open>
  Claim C6, amended. After a successful \<^verbatim>\<open>OpenInput\<close>, \<^verbatim>\<open>grab_until\<close> is 0
  when \<^verbatim>\<open>TotalFrames()\<close> is below \<^verbatim>\<open>INT_MAX\<close>, that is when the source has a
  playback interface that reports a frame count other than \<^verbatim>\<open>INT_MAX\<close>. Otherwise,
  for a source without a playback interface and for one whose interface reports
  \<^verbatim>\<open>INT_MAX\<close> frames, \<^verbatim>\<open>grab_until\<close> keeps the value it had, which is
  \<^verbatim>\<open>INT_MAX\<close> when the constructor opens the source.
\<close>

theorem OpenInput_grab_until:
  assumes opened: "video_Open V uri (output_uri s) (video s) = Inr v"
    and streams: "video_Streams V v \<noteq> []"
  shows "\<not> isl (OpenInput V s uri)
       \<and> video (projr (OpenInput V s uri)) = v
       \<and> video_playback (projr (OpenInput V s uri)) = FindFirstMatchingVideoInterface V v
       \<and> current_frame (projr (OpenInput V s uri)) = current_frame s
       \<and> grab_until (projr (OpenInput V s uri))
           = (if sint (TotalFrames V (projr (OpenInput V s uri))) < sint INT_MAX then 0 else grab_until s)
       \<and> (FindFirstMatchingVideoInterface V v = None
            \<longrightarrow> grab_until (projr (OpenInput V s uri)) = grab_until s)
       \<and> (\<forall>p. FindFirstMatchingVideoInterface V v = Some p
            \<longrightarrow> grab_until (projr (OpenInput V s uri))
                  = (if playback_GetTotalFrames V p v = INT_MAX then grab_until s else 0))"
  using assms
  by (cases "FindFirstMatchingVideoInterface V v")
     (simp_all add: OpenInput_def emit_def TotalFrames_def Let_def sint_less_INT_MAX)

theorem OpenInput_grab_until_witness:
  "grab_until (viewer_of []) = INT_MAX
   \<and> video_playback (projr (OpenInput test_api (viewer_of []) ''file'')) = Some ()
   \<and> grab_until (projr (OpenInput test_api (viewer_of []) ''file'')) = 0
   \<and> video_playback (projr (OpenInput test_api (viewer_of []) ''live'')) = None
   \<and> grab_until (projr (OpenInput test_api (viewer_of []) ''live'')) = INT_MAX"
proof -
  let ?file = "test_closed\<lparr>ts_streams := [vga], ts_total := Some 100\<rparr>"
  let ?live = "test_closed\<lparr>ts_streams := [vga]\<rparr>"
  have gu: "grab_until (viewer_of []) = INT_MAX" by (simp add: viewer_of_none)
  have open_file: "video_Open test_api ''file'' (output_uri (viewer_of [])) (video (viewer_of [])) = Inr ?file"
    and open_live: "video_Open test_api ''live'' (output_uri (viewer_of [])) (video (viewer_of [])) = Inr ?live"
    by (simp_all add: test_api_def test_Open_def)
  have streams: "video_Streams test_api ?file \<noteq> []" "video_Streams test_api ?live \<noteq> []"
    by (simp_all add: test_api_def)
  have find: "FindFirstMatchingVideoInterface test_api ?file = Some ()"
    "FindFirstMatchingVideoInterface test_api ?live = None"
    "playback_GetTotalFrames test_api () ?file \<noteq> INT_MAX"
    by (simp_all add: test_api_def test_closed_def INT_MAX_def)
  note f = OpenInput_grab_until [OF open_file streams(1)]
  note l = OpenInput_grab_until [OF open_live streams(2)]
  have f1: "video_playback (projr (OpenInput test_api (viewer_of []) ''file'')) = Some ()"
    using f [THEN conjunct2, THEN conjunct2, THEN conjunct1] find(1) by simp
  have f2: "grab_until (projr (OpenInput test_api (viewer_of []) ''file'')) = 0"
    using f [THEN conjunct2, THEN conjunct2, THEN conjunct2, THEN conjunct2, THEN conjunct2,
             THEN conjunct2, THEN spec, of "()"] find by simp
  have l1: "video_playback (projr (OpenInput test_api (viewer_of []) ''live'')) = None"
    using l [THEN conjunct2, THEN conjunct2, THEN conjunct1] find(2) by simp
  have l2: "grab_until (projr (OpenInput test_api (viewer_of []) ''live'')) = INT_MAX"
    using l [THEN conjunct2, THEN conjunct2, THEN conjunct2, THEN conjunct2, THEN conjunct2,
             THEN conjunct1] find(2) gu by simp
  show ?thesis using gu f1 f2 l1 l2 by simp
qed

text \<open>
  The claim as stated, that a seekable source starts paused, fails for a source with a
  playback interface that reports \<^verbatim>\<open>INT_MAX\<close> frames: it is opened in free-run.
\<close>

theorem OpenInput_grab_until_counterexample:
  "video_Open test_api ''pipe'' (output_uri (viewer_of [])) (video (viewer_of []))
     = Inr (test_closed\<lparr>ts_streams := [vga], ts_total := Some INT_MAX\<rparr>)
   \<and> \<not> isl (OpenInput test_api (viewer_of []) ''pipe'')
   \<and> video_playback (projr (OpenInput test_api (viewer_of []) ''pipe'')) = Some ()
   \<and> grab_until (projr (OpenInput test_api (viewer_of []) ''pipe'')) = INT_MAX
   \<and> grab_until (projr (OpenInput test_api (viewer_of []) ''pipe'')) \<noteq> 0"
  by (simp add: viewer_of_none OpenInput_def TotalFrames_def emit_def test_api_def test_Open_def
        test_closed_def INT_MAX_def)

subsection \<open>The render loop\<close>

lemma Run_grab_step_grab_until: "grab_until (Run_grab_step V s) = grab_until s"
  by (simp add: Run_grab_step_def emit_def Let_def split: prod.split)

lemma Run_grab_step_cases:
  "Run_grab_step V s =
     (if sint (current_frame s) < sint (grab_until s)
      then
        (let res = video_Grab V (images s) (video_grab_wait s) (video_grab_newest s) (video s)
         in s\<lparr>video := snd (snd res), images := fst (snd res),
              current_frame := (if fst res then current_frame s + 1 else current_frame s),
              trace := trace s @ VideoGrab (video_grab_wait s) (video_grab_newest s)
                         # (if fst res
                            then map (\<lambda>i. ViewSetImage i (fst (snd res) ! i)) [0 ..< length (fst (snd res))]
                            else [])\<rparr>)
      else s)"
  by (simp add: Run_grab_step_def emit_def Let_def split: prod.split)

text \<open>
  Claim C7, amended. In an iteration in which the slider was moved, the seek to the
  requested frame, with the position becoming the result of the seek minus one, is
  performed exactly when the source is seekable; \<^verbatim>\<open>grab_until\<close> becomes the position
  plus one in both cases, and the grab of the same iteration does not change it. With no
  moved slider this step does nothing.
\<close>

theorem Run_tick_slider:
  "(case video_playback s of
      Some p \<Rightarrow>
        current_frame (Run_gui_step V s True) = fst (playback_Seek V p (current_frame s) (video s)) - 1
        \<and> trace (Run_gui_step V s True) = trace s @ [VideoSeek (current_frame s)]
    | None \<Rightarrow>
        current_frame (Run_gui_step V s True) = current_frame s
        \<and> trace (Run_gui_step V s True) = trace s)
   \<and> grab_until (Run_gui_step V s True) = current_frame (Run_gui_step V s True) + 1
   \<and> grab_until (Run_tick V s True) = current_frame (Run_gui_step V s True) + 1
   \<and> Run_gui_step V s False = s"
  by (simp add: Run_tick_def Run_grab_step_grab_until)
     (simp add: Run_gui_step_def emit_def split: option.split prod.split)

theorem Run_tick_slider_witness:
  "video_playback file_slider_at_50 = Some ()
   \<and> current_frame (Run_gui_step test_api file_slider_at_50 True) = 50
   \<and> last (trace (Run_gui_step test_api file_slider_at_50 True)) = VideoSeek 50
   \<and> grab_until (Run_tick test_api file_slider_at_50 True) = 51"
proof -
  have bound: "video_playback file_slider_at_50 = Some ()"
    and cf: "current_frame file_slider_at_50 = 50"
    and seek: "fst (playback_Seek test_api () 50 (video file_slider_at_50)) = 51"
    by (simp_all add: file_slider_at_50_def viewer_of_file test_api_def test_Seek_def)
  show ?thesis
    using Run_tick_slider [where s = file_slider_at_50 and V = test_api] bound cf seek by simp
qed

text \<open>
  The claim as stated, that a moved slider leaves \<^verbatim>\<open>grab_until\<close> unchanged on a
  source that is not seekable, fails on the live source at frame 3 that grabs until 10:
  the bound becomes 4.
\<close>

theorem Run_tick_slider_counterexample:
  "video_playback live_at_3_until_10 = None
   \<and> grab_until live_at_3_until_10 = 10
   \<and> grab_until (Run_gui_step test_api live_at_3_until_10 True) = 4
   \<and> grab_until (Run_tick test_api live_at_3_until_10 True) = 4
   \<and> grab_until (Run_tick test_api live_at_3_until_10 True) \<noteq> grab_until live_at_3_until_10"
  by (simp add: Run_tick_def Run_grab_step_grab_until Run_gui_step_def live_at_3_until_10_fields)

text \<open>
  Claim C8. In every iteration, with \<open>s1\<close> the state after the reaction to the slider
  (the state before the iteration when the slider was not moved): a grab is attempted
  exactly when \<^verbatim>\<open>current_frame < grab_until\<close>; when it succeeds
  \<^verbatim>\<open>current_frame\<close> grows by exactly one and each grabbed image is handed to its
  stream view; when it fails \<^verbatim>\<open>current_frame\<close> is unchanged and nothing is
  printed; \<^verbatim>\<open>grab_until\<close> and the flags are unchanged in every case.
\<close>

theorem Run_tick_grab:
  "let s1 = Run_gui_step V s g;
       res = video_Grab V (images s1) (video_grab_wait s1) (video_grab_newest s1) (video s1);
       s' = Run_tick V s g
   in (\<not> sint (current_frame s1) < sint (grab_until s1) \<longrightarrow> s' = s1)
    \<and> (sint (current_frame s1) < sint (grab_until s1) \<longrightarrow>
          trace s' = trace s1 @ VideoGrab (video_grab_wait s1) (video_grab_newest s1)
                       # (if fst res
                          then map (\<lambda>i. ViewSetImage i (fst (snd res) ! i)) [0 ..< length (fst (snd res))]
                          else []))
    \<and> (sint (current_frame s1) < sint (grab_until s1) \<and> fst res \<longrightarrow>
          current_frame s' = current_frame s1 + 1
        \<and> sint (current_frame s') = sint (current_frame s1) + 1)
    \<and> (sint (current_frame s1) < sint (grab_until s1) \<and> \<not> fst res \<longrightarrow>
          current_frame s' = current_frame s1)
    \<and> grab_until s' = grab_until s1
    \<and> video_grab_wait s' = video_grab_wait s1
    \<and> video_grab_newest s' = video_grab_newest s1
    \<and> should_run s' = should_run s1
    \<and> record_nth_frame s' = record_nth_frame s1
    \<and> video_playback s' = video_playback s1
    \<and> (\<not> g \<longrightarrow> s1 = s)"
proof -
  have step: "sint (current_frame s1) < sint (grab_until s1)
                \<Longrightarrow> sint (current_frame s1 + 1) = sint (current_frame s1) + 1"
    for s1 :: "('a, 'b, 'c) VideoViewer"
    by (rule sint_succ)
  have idle: "Run_gui_step V s False = s" by (simp add: Run_gui_step_def)
  show ?thesis
    by (simp add: Run_tick_def Run_grab_step_cases Let_def step idle)
qed

theorem Run_tick_grab_witness:
  "sint (current_frame (viewer_of ''live'')) < sint (grab_until (viewer_of ''live''))
   \<and> fst (video_Grab test_api (images (viewer_of ''live'')) True False (video (viewer_of ''live'')))
   \<and> current_frame (Run_tick test_api (viewer_of ''live'') False) = 0
   \<and> sint (current_frame file_at_end) < sint (grab_until file_at_end)
   \<and> \<not> fst (video_Grab test_api (images file_at_end) True False (video file_at_end))
   \<and> current_frame (Run_tick test_api file_at_end False) = 100
   \<and> trace (Run_tick test_api file_at_end False) = trace file_at_end @ [VideoGrab True False]"
proof -
  have idle: "Run_gui_step test_api s False = s" for s :: "(test_source, unit, int32) VideoViewer"
    by (simp add: Run_gui_step_def)
  note live = Run_tick_grab [of test_api "viewer_of ''live''" False, unfolded Let_def idle]
  note last = Run_tick_grab [of test_api file_at_end False, unfolded Let_def idle]
  have l: "sint (current_frame (viewer_of ''live'')) < sint (grab_until (viewer_of ''live''))"
    "current_frame (viewer_of ''live'') = - 1"
    "video_grab_wait (viewer_of ''live'') = True" "video_grab_newest (viewer_of ''live'') = False"
    "fst (video_Grab test_api (images (viewer_of ''live'')) True False (video (viewer_of ''live'')))"
    by (simp_all add: viewer_of_live test_api_def test_Grab_def INT_MAX_def)
  have e: "sint (current_frame file_at_end) < sint (grab_until file_at_end)"
    "\<not> fst (video_Grab test_api (images file_at_end) True False (video file_at_end))"
    by (simp_all add: file_at_end_fields INT_MAX_def)
  have l': "current_frame (Run_tick test_api (viewer_of ''live'') False) = 0"
    using live [THEN conjunct2, THEN conjunct2, THEN conjunct1] l by simp
  have e1: "current_frame (Run_tick test_api file_at_end False) = 100"
    using last [THEN conjunct2, THEN conjunct2, THEN conjunct2, THEN conjunct1] e
    by (simp add: file_at_end_fields)
  have e2: "trace (Run_tick test_api file_at_end False) = trace file_at_end @ [VideoGrab True False]"
    using last [THEN conjunct2, THEN conjunct1] e
    by (simp add: file_at_end_fields)
  show ?thesis using l e l' e1 e2 by simp
qed

subsection \<open>Recording\<close>

text \<open>
  Claim C10. \<^verbatim>\<open>StopRecording\<close> calls \<^verbatim>\<open>Stop\<close> on the video object when it is
  recording, and only then: when it is not recording the state, events included, is
  unchanged. \<^verbatim>\<open>current_frame\<close>, \<^verbatim>\<open>grab_until\<close> and the two grab flags are
  unchanged in both cases.
\<close>

theorem StopRecording_only_when_recording:
  "(video_IsRecording V (video s) \<longrightarrow>
       trace (StopRecording V s) = trace s @ [VideoStop]
     \<and> video (StopRecording V s) = video_Stop V (video s))
   \<and> (\<not> video_IsRecording V (video s) \<longrightarrow> StopRecording V s = s)
   \<and> current_frame (StopRecording V s) = current_frame s
   \<and> grab_until (StopRecording V s) = grab_until s
   \<and> video_grab_wait (StopRecording V s) = video_grab_wait s
   \<and> video_grab_newest (StopRecording V s) = video_grab_newest s"
  by (simp add: StopRecording_def emit_def)

theorem StopRecording_only_when_recording_witness:
  "\<not> video_IsRecording test_api (video (viewer_of ''file''))
   \<and> StopRecording test_api (viewer_of ''file'') = viewer_of ''file''
   \<and> video_IsRecording test_api (video (ToggleRecord test_api (viewer_of ''file'')))
   \<and> trace (StopRecording test_api (ToggleRecord test_api (viewer_of ''file'')))
       = trace (ToggleRecord test_api (viewer_of ''file'')) @ [VideoStop]
   \<and> \<not> video_IsRecording test_api (video (StopRecording test_api (ToggleRecord test_api (viewer_of ''file''))))"
proof -
  have idle: "\<not> video_IsRecording test_api (video (viewer_of ''file''))"
    by (simp add: viewer_of_file test_api_def)
  have rec: "video_IsRecording test_api (video (ToggleRecord test_api (viewer_of ''file'')))"
    by (simp add: ToggleRecord_def emit_def viewer_of_file test_api_def)
  have stop: "video_Stop test_api (video (ToggleRecord test_api (viewer_of ''file'')))
                = (video (ToggleRecord test_api (viewer_of ''file'')))\<lparr>ts_recording := False\<rparr>"
    by (simp add: test_api_def)
  show ?thesis
    using StopRecording_only_when_recording [of test_api "viewer_of ''file''"]
      StopRecording_only_when_recording [of test_api "ToggleRecord test_api (viewer_of ''file'')"]
      idle rec stop
    by (simp add: test_api_def)
qed

subsection \<open>Bounds on the frame counters\<close>

lemma frame_bounds_new:
  assumes "VideoViewer_new V v0 w uri out = Inr s0"
  shows "frame_bounds s0 \<and> 0 \<le> sint (grab_until s0)"
  using assms
  by (auto simp: VideoViewer_new_def OpenInput_def emit_def Let_def frame_bounds_def INT_MAX_def
           split: if_splits sum.splits)

lemma OpenInput_frames:
  assumes "OpenInput V s uri = Inr s'"
  shows "current_frame s' = current_frame s \<and> (grab_until s' = grab_until s \<or> grab_until s' = 0)"
  using assms
  by (auto simp: OpenInput_def emit_def Let_def split: if_splits sum.splits)

lemma frame_bounds_TogglePlay: "frame_bounds s \<Longrightarrow> frame_bounds (TogglePlay s)"
  by (simp add: frame_bounds_def TogglePlay_def INT_MAX_def)

lemma frame_bounds_Run_grab_step: "frame_bounds s \<Longrightarrow> frame_bounds (Run_grab_step V s)"
  using sint_succ [of "current_frame s" "grab_until s"]
  by (simp add: frame_bounds_def Run_grab_step_cases Let_def)

lemma frame_bounds_Run_gui_step:
  assumes "frame_bounds s"
    and "case video_playback s of
           Some p \<Rightarrow> 0 \<le> sint (fst (playback_Seek V p (current_frame s) (video s)))
         | None \<Rightarrow> current_frame s \<noteq> INT_MAX"
  shows "frame_bounds (Run_gui_step V s True)"
proof (cases "video_playback s")
  case None
  then have "sint (current_frame s) < sint INT_MAX"
    using assms(2) by (simp add: sint_less_INT_MAX)
  then have "sint (current_frame s + 1) = sint (current_frame s) + 1" by (rule sint_succ)
  then show ?thesis using assms(1) None by (simp add: frame_bounds_def Run_gui_step_def)
next
  case (Some p)
  let ?r = "fst (playback_Seek V p (current_frame s) (video s))"
  have "0 \<le> sint ?r" using assms(2) Some by simp
  then have "sint (?r - 1) = sint ?r - 1" "0 \<le> sint ?r" using sint_pred [of ?r] by simp_all
  then show ?thesis using Some
    by (simp add: frame_bounds_def Run_gui_step_def emit_def case_prod_beta)
qed

lemma frame_bounds_Skip:
  assumes "frame_bounds s"
    and "case video_playback s of
           Some p \<Rightarrow> 0 \<le> sint (fst (playback_Seek V p (current_frame s + d) (video s)))
         | None \<Rightarrow> sint d < 0 \<or> sint (current_frame s) + sint d \<le> 2147483647"
  shows "frame_bounds (Skip V s d)"
proof (cases "video_playback s")
  case None
  show ?thesis
  proof (cases "sint d < 0")
    case True
    then show ?thesis using assms(1) None by (simp add: frame_bounds_def Skip_def emit_def)
  next
    case False
    then have "sint (current_frame s + d) = sint (current_frame s) + sint d"
      using assms None sint_add_ok [of "current_frame s" d] by (simp add: frame_bounds_def)
    then show ?thesis using assms(1) None False by (simp add: frame_bounds_def Skip_def)
  qed
next
  case (Some p)
  let ?r = "fst (playback_Seek V p (current_frame s + d) (video s))"
  have "0 \<le> sint ?r" using assms(2) Some by simp
  then have "sint (?r - 1) = sint ?r - 1" "0 \<le> sint ?r" using sint_pred [of ?r] by simp_all
  then show ?thesis using Some
    by (simp add: frame_bounds_def Skip_def emit_def case_prod_beta)
qed

lemma frame_bounds_others:
  "frame_bounds (ToggleRecord V s) = frame_bounds s"
  "frame_bounds (RecordOneFrame V s) = frame_bounds s"
  "frame_bounds (ToggleWaitForFrames s) = frame_bounds s"
  "frame_bounds (ToggleDiscardBufferedFrames s) = frame_bounds s"
  by (simp_all add: frame_bounds_def ToggleRecord_def RecordOneFrame_def ToggleWaitForFrames_def
        ToggleDiscardBufferedFrames_def emit_def Let_def)

lemma grab_until_others:
  "grab_until (ToggleRecord V s) = grab_until s"
  "grab_until (RecordOneFrame V s) = grab_until s"
  "grab_until (ToggleWaitForFrames s) = grab_until s"
  "grab_until (ToggleDiscardBufferedFrames s) = grab_until s"
  by (simp_all add: ToggleRecord_def RecordOneFrame_def ToggleWaitForFrames_def
        ToggleDiscardBufferedFrames_def emit_def Let_def)

lemma grab_until_Run_gui_step:
  assumes "- 1 \<le> sint (current_frame s)"
    and "case video_playback s of
           Some p \<Rightarrow> 0 \<le> sint (fst (playback_Seek V p (current_frame s) (video s)))
         | None \<Rightarrow> current_frame s \<noteq> INT_MAX"
  shows "0 \<le> sint (grab_until (Run_gui_step V s True))"
proof (cases "video_playback s")
  case None
  then have "sint (current_frame s) < sint INT_MAX"
    using assms(2) by (simp add: sint_less_INT_MAX)
  then have "sint (current_frame s + 1) = sint (current_frame s) + 1" by (rule sint_succ)
  then show ?thesis using assms(1) None by (simp add: Run_gui_step_def)
next
  case (Some p)
  then show ?thesis using assms(2)
    by (simp add: Run_gui_step_def emit_def case_prod_beta)
qed

lemma grab_until_Skip:
  assumes "- 1 \<le> sint (current_frame s)" and "0 \<le> sint (grab_until s)"
    and "case video_playback s of
           Some p \<Rightarrow> 0 \<le> sint (fst (playback_Seek V p (current_frame s + d) (video s)))
         | None \<Rightarrow> sint d < 0 \<or> sint (current_frame s) + sint d \<le> 2147483647"
    and "\<not> (video_playback s = None \<and> current_frame s = - 1 \<and> d = 0)"
  shows "0 \<le> sint (grab_until (Skip V s d))"
proof (cases "video_playback s")
  case None
  show ?thesis
  proof (cases "sint d < 0")
    case True
    then show ?thesis using assms(2) None by (simp add: Skip_def emit_def)
  next
    case False
    then have sum: "sint (current_frame s + d) = sint (current_frame s) + sint d"
      using assms(1,3) None sint_add_ok [of "current_frame s" d] by simp
    have "0 \<le> sint (current_frame s) + sint d"
    proof (cases "current_frame s = - 1")
      case True
      then have "d \<noteq> 0" using assms(4) None by simp
      then have "sint d \<noteq> 0" by (simp add: sint_zero_iff)
      then show ?thesis using False True by simp
    next
      case False
      then have "sint (current_frame s) \<noteq> - 1" by (simp add: sint_minus_one_iff)
      then show ?thesis using assms(1) \<open>\<not> sint d < 0\<close> by simp
    qed
    then show ?thesis using sum None False by (simp add: Skip_def)
  qed
next
  case (Some p)
  then show ?thesis using assms(3)
    by (simp add: Skip_seekable_fields)
qed

lemma grab_until_TogglePlay:
  assumes "- 1 \<le> sint (current_frame s)" and "0 \<le> sint (grab_until s)"
  shows "current_frame s \<noteq> - 1 \<longrightarrow> 0 \<le> sint (grab_until (TogglePlay s))"
    and "current_frame s = - 1 \<longrightarrow> grab_until (TogglePlay s) = - 1"
proof -
  have "current_frame s \<noteq> - 1 \<longrightarrow> 0 \<le> sint (current_frame s)"
    using assms(1) sint_minus_one_iff [of "current_frame s"] by auto
  then show "current_frame s \<noteq> - 1 \<longrightarrow> 0 \<le> sint (grab_until (TogglePlay s))"
    by (simp add: TogglePlay_def INT_MAX_def)
  show "current_frame s = - 1 \<longrightarrow> grab_until (TogglePlay s) = - 1"
    using assms(2) by (simp add: TogglePlay_def)
qed

text \<open>
  Claim C9, amended. \<^verbatim>\<open>grab_until \<ge> 0\<close> holds after the constructor and, in
  states with \<^verbatim>\<open>current_frame \<ge> -1\<close>, is kept by every operation:
  \<^verbatim>\<open>OpenInput\<close>, an iteration of the loop with or without a moved slider,
  \<^verbatim>\<open>TogglePlay\<close>, \<^verbatim>\<open>Skip\<close>, \<^verbatim>\<open>ToggleRecord\<close>, \<^verbatim>\<open>RecordOneFrame\<close>,
  \<^verbatim>\<open>ToggleWaitForFrames\<close> and \<^verbatim>\<open>ToggleDiscardBufferedFrames\<close>, with two
  exceptions, both while \<^verbatim>\<open>current_frame\<close> is still \<open>-1\<close> before the first grab:
  \<^verbatim>\<open>TogglePlay\<close>, and \<^verbatim>\<open>Skip(0)\<close> on a source that is not seekable, set
  \<^verbatim>\<open>grab_until\<close> to \<open>-1\<close>. This is under the provisos that \<^verbatim>\<open>Seek\<close> returns
  an index that is not negative and that, on a source that is not seekable, the sums
  \<^verbatim>\<open>current_frame + d\<close> of \<^verbatim>\<open>Skip\<close> and \<^verbatim>\<open>current_frame + 1\<close> of a moved
  slider do not overflow. Under the same provisos every operation, the two exceptions
  included, keeps \<^verbatim>\<open>current_frame \<ge> -1\<close> and \<^verbatim>\<open>grab_until \<ge> -1\<close>.
\<close>

theorem grab_until_bounds_preserved:
  "(VideoViewer_new V v0 w uri out = Inr s0 \<longrightarrow> frame_bounds s0 \<and> 0 \<le> sint (grab_until s0))
   \<and> (frame_bounds s \<and> 0 \<le> sint (grab_until s) \<longrightarrow>
         (OpenInput V s uri = Inr s' \<longrightarrow> 0 \<le> sint (grab_until s'))
       \<and> 0 \<le> sint (grab_until (Run_tick V s False))
       \<and> ((case video_playback s of
              Some p \<Rightarrow> 0 \<le> sint (fst (playback_Seek V p (current_frame s) (video s)))
            | None \<Rightarrow> current_frame s \<noteq> INT_MAX)
            \<longrightarrow> 0 \<le> sint (grab_until (Run_tick V s True)))
       \<and> ((case video_playback s of
              Some p \<Rightarrow> 0 \<le> sint (fst (playback_Seek V p (current_frame s + d) (video s)))
            | None \<Rightarrow> sint d < 0 \<or> sint (current_frame s) + sint d \<le> 2147483647)
            \<and> \<not> (video_playback s = None \<and> current_frame s = - 1 \<and> d = 0)
            \<longrightarrow> 0 \<le> sint (grab_until (Skip V s d)))
       \<and> (current_frame s \<noteq> - 1 \<longrightarrow> 0 \<le> sint (grab_until (TogglePlay s)))
       \<and> 0 \<le> sint (grab_until (ToggleRecord V s))
       \<and> 0 \<le> sint (grab_until (RecordOneFrame V s))
       \<and> 0 \<le> sint (grab_until (ToggleWaitForFrames s))
       \<and> 0 \<le> sint (grab_until (ToggleDiscardBufferedFrames s))
       \<and> (current_frame s = - 1 \<longrightarrow> grab_until (TogglePlay s) = - 1)
       \<and> (current_frame s = - 1 \<and> video_playback s = None \<longrightarrow> grab_until (Skip V s 0) = - 1))
   \<and> (frame_bounds s \<longrightarrow>
         (OpenInput V s uri = Inr s' \<longrightarrow> frame_bounds s')
       \<and> frame_bounds (Run_tick V s False)
       \<and> ((case video_playback s of
              Some p \<Rightarrow> 0 \<le> sint (fst (playback_Seek V p (current_frame s) (video s)))
            | None \<Rightarrow> current_frame s \<noteq> INT_MAX)
            \<longrightarrow> frame_bounds (Run_tick V s True))
       \<and> frame_bounds (TogglePlay s)
       \<and> ((case video_playback s of
              Some p \<Rightarrow> 0 \<le> sint (fst (playback_Seek V p (current_frame s + d) (video s)))
            | None \<Rightarrow> sint d < 0 \<or> sint (current_frame s) + sint d \<le> 2147483647)
            \<longrightarrow> frame_bounds (Skip V s d))
       \<and> frame_bounds (ToggleRecord V s)
       \<and> frame_bounds (RecordOneFrame V s)
       \<and> frame_bounds (ToggleWaitForFrames s)
       \<and> frame_bounds (ToggleDiscardBufferedFrames s))"
proof -
  have new: "VideoViewer_new V v0 w uri out = Inr s0 \<longrightarrow> frame_bounds s0 \<and> 0 \<le> sint (grab_until s0)"
    using frame_bounds_new [of V v0 w uri out s0] by simp
  have opn: "OpenInput V s uri = Inr s' \<longrightarrow>
               (frame_bounds s \<longrightarrow> frame_bounds s') \<and> (0 \<le> sint (grab_until s) \<longrightarrow> 0 \<le> sint (grab_until s'))"
    using OpenInput_frames [of V s uri s'] by (auto simp: frame_bounds_def)
  have idle: "Run_tick V s False = Run_grab_step V s"
    by (simp add: Run_tick_def Run_gui_step_def)
  have tick: "frame_bounds s \<longrightarrow> frame_bounds (Run_tick V s False)"
    by (simp add: idle frame_bounds_Run_grab_step)
  have tick0: "0 \<le> sint (grab_until s) \<longrightarrow> 0 \<le> sint (grab_until (Run_tick V s False))"
    by (simp add: idle Run_grab_step_grab_until)
  have slide: "frame_bounds s \<longrightarrow>
       (case video_playback s of
              Some p \<Rightarrow> 0 \<le> sint (fst (playback_Seek V p (current_frame s) (video s)))
            | None \<Rightarrow> current_frame s \<noteq> INT_MAX)
            \<longrightarrow> frame_bounds (Run_tick V s True) \<and> 0 \<le> sint (grab_until (Run_tick V s True))"
  proof (intro impI conjI)
    assume inv: "frame_bounds s"
      and ok: "case video_playback s of
              Some p \<Rightarrow> 0 \<le> sint (fst (playback_Seek V p (current_frame s) (video s)))
            | None \<Rightarrow> current_frame s \<noteq> INT_MAX"
    show "frame_bounds (Run_tick V s True)"
      using inv ok by (simp add: Run_tick_def frame_bounds_Run_grab_step frame_bounds_Run_gui_step)
    have "- 1 \<le> sint (current_frame s)" using inv by (simp add: frame_bounds_def)
    then show "0 \<le> sint (grab_until (Run_tick V s True))"
      using ok by (simp add: Run_tick_def Run_grab_step_grab_until grab_until_Run_gui_step)
  qed
  have skip: "frame_bounds s \<and> 0 \<le> sint (grab_until s) \<longrightarrow>
       (case video_playback s of
              Some p \<Rightarrow> 0 \<le> sint (fst (playback_Seek V p (current_frame s + d) (video s)))
            | None \<Rightarrow> sint d < 0 \<or> sint (current_frame s) + sint d \<le> 2147483647)
            \<and> \<not> (video_playback s = None \<and> current_frame s = - 1 \<and> d = 0)
            \<longrightarrow> 0 \<le> sint (grab_until (Skip V s d))"
    using grab_until_Skip [where s = s and V = V and d = d] by (simp add: frame_bounds_def)
  have play: "frame_bounds s \<and> 0 \<le> sint (grab_until s) \<longrightarrow>
       (current_frame s \<noteq> - 1 \<longrightarrow> 0 \<le> sint (grab_until (TogglePlay s)))
       \<and> (current_frame s = - 1 \<longrightarrow> grab_until (TogglePlay s) = - 1)"
    using grab_until_TogglePlay [of s] by (simp add: frame_bounds_def)
  have skip0: "current_frame s = - 1 \<and> video_playback s = None \<longrightarrow> grab_until (Skip V s 0) = - 1"
    by (simp add: Skip_def)
  have strong: "frame_bounds s \<and> 0 \<le> sint (grab_until s) \<longrightarrow>
         (OpenInput V s uri = Inr s' \<longrightarrow> 0 \<le> sint (grab_until s'))
       \<and> 0 \<le> sint (grab_until (Run_tick V s False))
       \<and> ((case video_playback s of
              Some p \<Rightarrow> 0 \<le> sint (fst (playback_Seek V p (current_frame s) (video s)))
            | None \<Rightarrow> current_frame s \<noteq> INT_MAX)
            \<longrightarrow> 0 \<le> sint (grab_until (Run_tick V s True)))
       \<and> ((case video_playback s of
              Some p \<Rightarrow> 0 \<le> sint (fst (playback_Seek V p (current_frame s + d) (video s)))
            | None \<Rightarrow> sint d < 0 \<or> sint (current_frame s) + sint d \<le> 2147483647)
            \<and> \<not> (video_playback s = None \<and> current_frame s = - 1 \<and> d = 0)
            \<longrightarrow> 0 \<le> sint (grab_until (Skip V s d)))
       \<and> (current_frame s \<noteq> - 1 \<longrightarrow> 0 \<le> sint (grab_until (TogglePlay s)))
       \<and> 0 \<le> sint (grab_until (ToggleRecord V s))
       \<and> 0 \<le> sint (grab_until (RecordOneFrame V s))
       \<and> 0 \<le> sint (grab_until (ToggleWaitForFrames s))
       \<and> 0 \<le> sint (grab_until (ToggleDiscardBufferedFrames s))
       \<and> (current_frame s = - 1 \<longrightarrow> grab_until (TogglePlay s) = - 1)
       \<and> (current_frame s = - 1 \<and> video_playback s = None \<longrightarrow> grab_until (Skip V s 0) = - 1)"
    using opn tick0 slide skip play skip0 by (simp add: grab_until_others)
  have weak: "frame_bounds s \<longrightarrow>
         (OpenInput V s uri = Inr s' \<longrightarrow> frame_bounds s')
       \<and> frame_bounds (Run_tick V s False)
       \<and> ((case video_playback s of
              Some p \<Rightarrow> 0 \<le> sint (fst (playback_Seek V p (current_frame s) (video s)))
            | None \<Rightarrow> current_frame s \<noteq> INT_MAX)
            \<longrightarrow> frame_bounds (Run_tick V s True))
       \<and> frame_bounds (TogglePlay s)
       \<and> ((case video_playback s of
              Some p \<Rightarrow> 0 \<le> sint (fst (playback_Seek V p (current_frame s + d) (video s)))
            | None \<Rightarrow> sint d < 0 \<or> sint (current_frame s) + sint d \<le> 2147483647)
            \<longrightarrow> frame_bounds (Skip V s d))
       \<and> frame_bounds (ToggleRecord V s)
       \<and> frame_bounds (RecordOneFrame V s)
       \<and> frame_bounds (ToggleWaitForFrames s)
       \<and> frame_bounds (ToggleDiscardBufferedFrames s)"
    using opn tick slide frame_bounds_TogglePlay [of s] frame_bounds_Skip [where s = s and V = V and d = d]
    by (simp add: frame_bounds_others)
  from new strong weak show ?thesis by (intro conjI)
qed

text \<open>
  The file just opened is at \<open>-1\<close>, where \<^verbatim>\<open>TogglePlay\<close> is the exception; the
  live source at frame 3 is past it.
\<close>

theorem grab_until_bounds_preserved_witness:
  "VideoViewer_new test_api test_closed ''VideoViewer'' ''file'' ''video.pango'' = Inr (viewer_of ''file'')
   \<and> frame_bounds (viewer_of ''file'')
   \<and> 0 \<le> sint (grab_until (viewer_of ''file''))
   \<and> 0 \<le> sint (grab_until (Run_tick test_api (viewer_of ''file'') False))
   \<and> 0 \<le> sint (grab_until (Run_tick test_api (viewer_of ''file'') True))
   \<and> 0 \<le> sint (grab_until (Skip test_api (viewer_of ''file'') 10))
   \<and> current_frame (viewer_of ''file'') = - 1
   \<and> grab_until (TogglePlay (viewer_of ''file'')) = - 1
   \<and> frame_bounds (TogglePlay (viewer_of ''file''))
   \<and> frame_bounds live_at_3_until_10
   \<and> 0 \<le> sint (grab_until live_at_3_until_10)
   \<and> current_frame live_at_3_until_10 \<noteq> - 1
   \<and> 0 \<le> sint (grab_until (TogglePlay live_at_3_until_10))
   \<and> 0 \<le> sint (grab_until (Skip test_api live_at_3_until_10 0))"
proof -
  let ?f = "viewer_of ''file''"
  let ?l = live_at_3_until_10
  note new = VideoViewer_new_file
  have seek: "case video_playback ?f of
                Some p \<Rightarrow> 0 \<le> sint (fst (playback_Seek test_api p (current_frame ?f) (video ?f)))
              | None \<Rightarrow> current_frame ?f \<noteq> INT_MAX"
    and skip: "case video_playback ?f of
                Some p \<Rightarrow> 0 \<le> sint (fst (playback_Seek test_api p (current_frame ?f + 10) (video ?f)))
              | None \<Rightarrow> sint (10 :: int32) < 0 \<or> sint (current_frame ?f) + sint (10 :: int32) \<le> 2147483647"
    and bound: "\<not> (video_playback ?f = None \<and> current_frame ?f = - 1 \<and> (10 :: int32) = 0)"
    and first: "current_frame ?f = - 1"
    by (simp_all add: viewer_of_file test_api_def test_Seek_def)
  have lskip: "case video_playback ?l of
                Some p \<Rightarrow> 0 \<le> sint (fst (playback_Seek test_api p (current_frame ?l + 0) (video ?l)))
              | None \<Rightarrow> sint (0 :: int32) < 0 \<or> sint (current_frame ?l) + sint (0 :: int32) \<le> 2147483647"
    and lbound: "\<not> (video_playback ?l = None \<and> current_frame ?l = - 1 \<and> (0 :: int32) = 0)"
    and later: "current_frame ?l \<noteq> - 1"
    and linv: "frame_bounds ?l" "0 \<le> sint (grab_until ?l)"
    by (simp_all add: live_at_3_until_10_fields frame_bounds_def)
  note f = grab_until_bounds_preserved [where V = test_api and ?v0.0 = test_closed
      and w = "''VideoViewer''" and uri = "''file''" and out = "''video.pango''"
      and ?s0.0 = ?f and s = ?f and d = 10]
  note l = grab_until_bounds_preserved [where V = test_api and s = ?l and d = 0]
  have inv: "frame_bounds ?f" "0 \<le> sint (grab_until ?f)"
    using f [THEN conjunct1] new by simp_all
  note fs = f [THEN conjunct2, THEN conjunct1, rule_format, OF conjI, OF inv]
  note fw = f [THEN conjunct2, THEN conjunct2, rule_format, OF inv(1)]
  note ls = l [THEN conjunct2, THEN conjunct1, rule_format, OF conjI, OF linv]
  have f1: "0 \<le> sint (grab_until (Run_tick test_api ?f False))"
    using fs by blast
  have f2: "0 \<le> sint (grab_until (Run_tick test_api ?f True))"
    using fs seek by blast
  have f3: "0 \<le> sint (grab_until (Skip test_api ?f 10))"
    using fs skip bound by blast
  have f4: "grab_until (TogglePlay ?f) = - 1"
    using fs first by blast
  have f5: "frame_bounds (TogglePlay ?f)"
    using fw by blast
  have l1: "0 \<le> sint (grab_until (TogglePlay ?l))"
    using ls later by blast
  have l2: "0 \<le> sint (grab_until (Skip test_api ?l 0))"
    using ls lskip lbound by blast
  show ?thesis
    using new inv f1 f2 f3 first f4 f5 linv later l1 l2 by (intro conjI)
qed

text \<open>
  The claim as stated fails right after the constructor opened a source, while
  \<^verbatim>\<open>current_frame\<close> is \<open>-1\<close>: on the file \<^verbatim>\<open>TogglePlay\<close> sets
  \<^verbatim>\<open>grab_until\<close> to \<open>-1\<close>, and on the live source \<^verbatim>\<open>Skip(0)\<close> does. It also
  fails where the sum of \<^verbatim>\<open>Skip\<close> overflows: at frame 3 of the live source
  \<^verbatim>\<open>Skip(2147483647)\<close> leaves a negative bound.
\<close>

theorem grab_until_nonnegative_counterexample:
  "VideoViewer_new test_api test_closed ''VideoViewer'' ''file'' ''video.pango'' = Inr (viewer_of ''file'')
   \<and> 0 \<le> sint (grab_until (viewer_of ''file''))
   \<and> sint (current_frame (viewer_of ''file'')) = - 1
   \<and> sint (grab_until (TogglePlay (viewer_of ''file''))) = - 1
   \<and> \<not> 0 \<le> sint (grab_until (TogglePlay (viewer_of ''file'')))
   \<and> video_playback (viewer_of ''live'') = None
   \<and> 0 \<le> sint (grab_until (viewer_of ''live''))
   \<and> sint (current_frame (viewer_of ''live'')) = - 1
   \<and> sint (grab_until (Skip test_api (viewer_of ''live'') 0)) = - 1
   \<and> \<not> 0 \<le> sint (grab_until (Skip test_api (viewer_of ''live'') 0))
   \<and> video_playback live_at_3_until_10 = None
   \<and> 0 \<le> sint (grab_until live_at_3_until_10)
   \<and> sint (grab_until (Skip test_api live_at_3_until_10 2147483647)) = - 2147483646"
  by (simp add: VideoViewer_new_file)
     (simp add: viewer_of_file viewer_of_live live_at_3_until_10_fields TogglePlay_def Skip_def
        INT_MAX_def)

end
